theory Spec2Isabelle
  imports Complex_Main
begin

section \<open>Dates and the clock\<close>

text \<open>
  The JavaScript sources handle three kinds of date value: the calendar dates of the
  \<open>DATEONLY\<close> columns \<open>start_date\<close> and \<open>end_date\<close> (strings \<open>YYYY-MM-DD\<close>, kept here as
  the number of days since 1970-01-01), instants (\<open>Date\<close> objects, kept as milliseconds
  since the epoch), and values that \<open>new Date\<close> cannot parse.
\<close>

definition MILLISECONDS_IN_DAY :: int where
  "MILLISECONDS_IN_DAY = 1000 * 60 * 60 * 24"

datatype rawdate = DateOnly int | Instant int | Unparseable

datatype jsdate = Time int | InvalidDate

text \<open>
  \<open>new Date(x)\<close>: a date-only ISO string is read as midnight UTC of that day, any other
  parseable value as its instant, anything else gives an invalid date.
\<close>

fun newDate :: "rawdate \<Rightarrow> jsdate" where
  "newDate (DateOnly d) = Time (d * MILLISECONDS_IN_DAY)"
| "newDate (Instant t) = Time t"
| "newDate Unparseable = InvalidDate"

text \<open>\<open>getTime()\<close>; \<open>None\<close> stands for \<open>NaN\<close>.\<close>

fun getTime :: "jsdate \<Rightarrow> int option" where
  "getTime (Time t) = Some t"
| "getTime InvalidDate = None"

text \<open>
  The relational operators on two \<open>Date\<close> objects compare their time values; a comparison
  with \<open>NaN\<close> is false.
\<close>

fun dateLess :: "jsdate \<Rightarrow> jsdate \<Rightarrow> bool" where
  "dateLess (Time a) (Time b) = (a < b)"
| "dateLess _ _ = False"

text \<open>
  The server's clock: the current instant and the zone offset in minutes as
  \<open>getTimezoneOffset()\<close> reports it (UTC minus local time, so positive west of Greenwich).
  The offset is taken as fixed; daylight saving changes are not modelled.
\<close>

record clock =
  now :: int
  timezoneOffset :: int

text \<open>\<open>new Date().setHours(0, 0, 0, 0)\<close>: the instant of local midnight of the current day.\<close>

definition startOfToday :: "clock \<Rightarrow> int" where
  "startOfToday c =
     ((now c - timezoneOffset c * 60000) div MILLISECONDS_IN_DAY) * MILLISECONDS_IN_DAY
       + timezoneOffset c * 60000"

text \<open>The local calendar day (days since 1970-01-01) the clock is in.\<close>

definition currentDay :: "clock \<Rightarrow> int" where
  "currentDay c = (now c - timezoneOffset c * 60000) div MILLISECONDS_IN_DAY"

text \<open>Days since 1970-01-01 of the proleptic Gregorian date \<open>y-m-d\<close> (\<open>m\<close> from 1 to 12).\<close>

definition daysFromCivil :: "int \<Rightarrow> int \<Rightarrow> int \<Rightarrow> int" where
  "daysFromCivil y m d =
     (let y' = (if m \<le> 2 then y - 1 else y);
          era = y' div 400;
          yoe = y' - era * 400;
          mp = (m + 9) mod 12;
          doy = (153 * mp + 2) div 5 + d - 1;
          doe = yoe * 365 + yoe div 4 - yoe div 100 + doy
      in era * 146097 + doe - 719468)"

text \<open>
  \<open>new Date(year, monthIndex, day)\<close>: local midnight of that date, \<open>monthIndex\<close> counted
  from 0; years 0 to 99 denote 1900 to 1999.
\<close>

definition newLocalDate :: "clock \<Rightarrow> int \<Rightarrow> int \<Rightarrow> int \<Rightarrow> int" where
  "newLocalDate c year monthIndex day =
     daysFromCivil (if 0 \<le> year \<and> year \<le> 99 then 1900 + year else year) (monthIndex + 1) day
       * MILLISECONDS_IN_DAY + timezoneOffset c * 60000"

section \<open>Data model\<close>

datatype status = PENDING | APPROVED | REJECTED | PENDING_APPROVAL

text \<open>
  Modelled from the spec: the module \<open>utils/constants\<close> is not among the sources; the
  status names are those of the model's \<open>ENUM\<close> and of the validation rules, the routing
  keys are the two topics of the event transport.
\<close>

definition LEAVE_REQUEST_STATUS :: "(string \<times> status) list" where
  "LEAVE_REQUEST_STATUS =
     [(''PENDING'', PENDING), (''APPROVED'', APPROVED), (''REJECTED'', REJECTED),
      (''PENDING_APPROVAL'', PENDING_APPROVAL)]"

definition LEAVE_REQUESTED :: string where
  "LEAVE_REQUESTED = ''leave.requested''"

definition LEAVE_APPROVED :: string where
  "LEAVE_APPROVED = ''leave.approved''"

text \<open>The body of a creation request, as the validation layer hands it to the service.\<close>

record leaveRequestData =
  employeeId :: nat
  startDate :: int
  endDate :: int
  idempotencyKey :: "string option"

text \<open>A row of the table \<open>leave_requests\<close>.\<close>

record leave_request = leaveRequestData +
  id' :: nat
  status :: status
  processedAt :: "int option"
  createdAt :: int
  updatedAt :: int

datatype payload =
    LeaveRequestedPayload nat nat int int status "string option" int
  | LeaveApprovedPayload nat nat int int int

text \<open>
  The persistent store and the transport: the rows in insertion order, the next value of
  the auto-increment key, the ids of the existing employees, whether the broker's channel
  can be opened, and the messages handed to the exchange so far.
\<close>

record state =
  rows :: "leave_request list"
  nextId :: nat
  employees :: "nat set"
  brokerUp :: bool
  published :: "(string \<times> payload) list"

datatype error =
    EmployeeNotFound
  | StartAfterEnd
  | PastDates
  | Overlaps
  | LeaveRequestNotFound
  | InvalidStatus
  | UnauthorizedCancel
  | CannotCancelRejected
  | SequelizeValidationError
  | SequelizeUniqueConstraintError
  | SequelizeForeignKeyConstraintError
  | PublishFailed

datatype error_kind =
  NotFound | InvalidInput | Conflict | Unauthorized | InvalidState | ConstraintViolation
  | TransportFailure

text \<open>
  Modelled from the spec: the sources raise plain \<open>Error\<close> objects that differ in their
  message only; the taxonomy of the error-handling design classifies them.
\<close>

fun kind :: "error \<Rightarrow> error_kind" where
  "kind EmployeeNotFound = NotFound"
| "kind LeaveRequestNotFound = NotFound"
| "kind StartAfterEnd = InvalidInput"
| "kind PastDates = InvalidInput"
| "kind InvalidStatus = InvalidInput"
| "kind SequelizeValidationError = InvalidInput"
| "kind Overlaps = Conflict"
| "kind UnauthorizedCancel = Unauthorized"
| "kind CannotCancelRejected = InvalidState"
| "kind SequelizeUniqueConstraintError = ConstraintViolation"
| "kind SequelizeForeignKeyConstraintError = ConstraintViolation"
| "kind PublishFailed = TransportFailure"

section \<open>Duration classifier\<close>

definition calculateLeaveDuration :: "rawdate \<Rightarrow> rawdate \<Rightarrow> int option" where
  "calculateLeaveDuration startD endD =
     (case getTime (newDate startD) of
        None \<Rightarrow> None
      | Some s \<Rightarrow>
         (case getTime (newDate endD) of
            None \<Rightarrow> None
          | Some e \<Rightarrow>
             Some (max 1 (\<lceil>real_of_int (e - s) / real_of_int MILLISECONDS_IN_DAY\<rceil> + 1))))"

section \<open>Leave record store\<close>

definition findById :: "nat \<Rightarrow> state \<Rightarrow> leave_request option" where
  "findById i s = find (\<lambda>r. id' r = i) (rows s)"

definition findByIdempotencyKey :: "string \<Rightarrow> state \<Rightarrow> leave_request option" where
  "findByIdempotencyKey k s = find (\<lambda>r. idempotencyKey r = Some k) (rows s)"

text \<open>
  The \<open>Op.or\<close> block of \<open>findOverlapping\<close>, for the candidate range \<open>[s1, e1]\<close> and a row with
  range \<open>[s2, e2]\<close>: the row starts inside the candidate (\<open>BETWEEN\<close> includes both ends), or
  it ends inside it, or it covers it.
\<close>

definition overlapCondition :: "int \<Rightarrow> int \<Rightarrow> int \<Rightarrow> int \<Rightarrow> bool" where
  "overlapCondition s1 e1 s2 e2 =
     ((s1 \<le> s2 \<and> s2 \<le> e1) \<or> (s1 \<le> e2 \<and> e2 \<le> e1) \<or> (s2 \<le> s1 \<and> e2 \<ge> e1))"

text \<open>The overlap predicate in the words of the overlap checker's description.\<close>

definition rangesOverlap :: "int \<Rightarrow> int \<Rightarrow> int \<Rightarrow> int \<Rightarrow> bool" where
  "rangesOverlap s1 e1 s2 e2 = (s1 \<le> e2 \<and> s2 \<le> e1)"

definition isActive :: "status \<Rightarrow> bool" where
  "isActive st = (st = APPROVED \<or> st = PENDING_APPROVAL)"

text \<open>An \<open>excludeId\<close> that is absent or falsy (\<open>null\<close>, 0) adds no condition.\<close>

definition findOverlapping ::
  "nat \<Rightarrow> int \<Rightarrow> int \<Rightarrow> nat option \<Rightarrow> state \<Rightarrow> leave_request list" where
  "findOverlapping emp startD endD excludeId s =
     filter (\<lambda>r. employeeId r = emp \<and> isActive (status r)
                \<and> overlapCondition startD endD (startDate r) (endDate r)
                \<and> (case excludeId of None \<Rightarrow> True | Some x \<Rightarrow> x = 0 \<or> id' r \<noteq> x))
       (rows s)"

text \<open>
  \<open>LeaveRequest.create\<close>: the model's validator \<open>isAfterStartDate\<close>, the unique index on
  the idempotency key, the foreign key to the employees, then the insert with the next
  id and both audit timestamps.
\<close>

definition create ::
  "int \<Rightarrow> leaveRequestData \<Rightarrow> status \<Rightarrow> string \<Rightarrow> state \<Rightarrow> error + leave_request \<times> state" where
  "create t d st key s =
     (if dateLess (newDate (DateOnly (endDate d))) (newDate (DateOnly (startDate d)))
      then Inl SequelizeValidationError
      else if findByIdempotencyKey key s \<noteq> None then Inl SequelizeUniqueConstraintError
      else if employeeId d \<notin> employees s then Inl SequelizeForeignKeyConstraintError
      else
        let r = \<lparr>employeeId = employeeId d, startDate = startDate d, endDate = endDate d,
                 idempotencyKey = Some key, id' = nextId s, status = st,
                 processedAt = None, createdAt = t, updatedAt = t\<rparr>
        in Inr (r, s\<lparr>rows := rows s @ [r], nextId := nextId s + 1\<rparr>))"

definition updateStatus :: "int \<Rightarrow> nat \<Rightarrow> status \<Rightarrow> state \<Rightarrow> state" where
  "updateStatus t i st s =
     s\<lparr>rows := map (\<lambda>r. if id' r = i
                          then r\<lparr>status := st, processedAt := Some t, updatedAt := t\<rparr>
                          else r) (rows s)\<rparr>"

definition delete :: "nat \<Rightarrow> state \<Rightarrow> state" where
  "delete i s = s\<lparr>rows := filter (\<lambda>r. id' r \<noteq> i) (rows s)\<rparr>"

definition leaveRequestExists :: "nat \<Rightarrow> state \<Rightarrow> bool" where
  "leaveRequestExists i s = (0 < length (filter (\<lambda>r. id' r = i) (rows s)))"

definition employeeExists :: "nat \<Rightarrow> state \<Rightarrow> bool" where
  "employeeExists e s = (e \<in> employees s)"

record stats =
  total :: nat
  approved :: nat
  pending :: nat
  rejected :: nat
  totalDays :: int

text \<open>The body of the \<open>forEach\<close> of \<open>getEmployeeStats\<close>.\<close>

definition statsStep :: "stats \<Rightarrow> leave_request \<Rightarrow> stats" where
  "statsStep st r =
     (let days = \<lceil>real_of_int (endDate r * MILLISECONDS_IN_DAY - startDate r * MILLISECONDS_IN_DAY)
                    / real_of_int (1000 * 60 * 60 * 24)\<rceil> + 1
      in if status r = APPROVED
           then st\<lparr>approved := approved st + 1, totalDays := totalDays st + days\<rparr>
         else if status r = PENDING \<or> status r = PENDING_APPROVAL
           then st\<lparr>pending := pending st + 1\<rparr>
         else if status r = REJECTED
           then st\<lparr>rejected := rejected st + 1\<rparr>
         else st)"

definition getEmployeeStats :: "clock \<Rightarrow> nat \<Rightarrow> int \<Rightarrow> state \<Rightarrow> stats" where
  "getEmployeeStats c emp year s =
     (let startOfYear = newLocalDate c year 0 1;
          endOfYear = newLocalDate c year 11 31;
          requests = filter (\<lambda>r. employeeId r = emp
                                  \<and> startOfYear \<le> createdAt r \<and> createdAt r \<le> endOfYear) (rows s)
      in foldl statsStep
           \<lparr>total = length requests, approved = 0, pending = 0, rejected = 0, totalDays = 0\<rparr>
           requests)"

text \<open>
  A row is created within the calendar year when its creation instant lies between the
  local midnight that starts the year and the one that starts the next year.
\<close>

definition createdInYear :: "clock \<Rightarrow> int \<Rightarrow> leave_request \<Rightarrow> bool" where
  "createdInYear c year r =
     (newLocalDate c year 0 1 \<le> createdAt r \<and> createdAt r < newLocalDate c (year + 1) 0 1)"

text \<open>The rows that the query of \<open>getEmployeeStats\<close> selects.\<close>

definition statsWindow :: "clock \<Rightarrow> nat \<Rightarrow> int \<Rightarrow> state \<Rightarrow> leave_request list" where
  "statsWindow c emp year s =
     filter (\<lambda>r. employeeId r = emp \<and> newLocalDate c year 0 1 \<le> createdAt r
                \<and> createdAt r \<le> newLocalDate c year 11 31) (rows s)"

section \<open>Event transport\<close>

text \<open>
  \<open>publishMessage\<close> raises when the channel cannot be opened and otherwise hands the
  message to the exchange.
\<close>

definition publishMessage :: "string \<Rightarrow> payload \<Rightarrow> state \<Rightarrow> (error + bool) \<times> state" where
  "publishMessage routingKey message s =
     (if brokerUp s
      then (Inr True, s\<lparr>published := published s @ [(routingKey, message)]\<rparr>)
      else (Inl PublishFailed, s))"

section \<open>Leave request orchestrator\<close>

record create_result =
  success :: bool
  data :: "leave_request option"
  duplicate :: "bool option"

text \<open>
  \<open>rnd\<close> is the value of \<open>crypto.randomBytes(16).toString('hex')\<close> for this call; it is
  used when the body carries no idempotency key or an empty one (both are falsy).
  A failed publish is caught and logged.
\<close>

definition createLeaveRequest ::
  "clock \<Rightarrow> string \<Rightarrow> leaveRequestData \<Rightarrow> state \<Rightarrow> (error + create_result) \<times> state" where
  "createLeaveRequest c rnd d s =
     (if \<not> employeeExists (employeeId d) s then (Inl EmployeeNotFound, s)
      else
        let startD = newDate (DateOnly (startDate d));
            endD = newDate (DateOnly (endDate d))
        in if dateLess endD startD then (Inl StartAfterEnd, s)
           else if dateLess startD (Time (startOfToday c)) then (Inl PastDates, s)
           else if 0 < length (findOverlapping (employeeId d) (startDate d) (endDate d) None s)
             then (Inl Overlaps, s)
           else
             let key = (case idempotencyKey d of
                          None \<Rightarrow> rnd
                        | Some k \<Rightarrow> if k = [] then rnd else k)
             in case findByIdempotencyKey key s of
                  Some existingRequest \<Rightarrow>
                    (Inr \<lparr>success = True, data = Some existingRequest, duplicate = Some True\<rparr>, s)
                | None \<Rightarrow>
                    (case create (now c) d PENDING key s of
                       Inl e \<Rightarrow> (Inl e, s)
                     | Inr (leaveRequest, s1) \<Rightarrow>
                         let s2 = snd (publishMessage LEAVE_REQUESTED
                                    (LeaveRequestedPayload (id' leaveRequest)
                                       (employeeId leaveRequest) (startDate leaveRequest)
                                       (endDate leaveRequest) (status leaveRequest)
                                       (idempotencyKey leaveRequest) (now c)) s1)
                         in (Inr \<lparr>success = True, data = findById (id' leaveRequest) s2,
                                  duplicate = None\<rparr>, s2)))"

text \<open>The controller's test \<open>result.duplicate ? OK : CREATED\<close>: an absent flag is falsy.\<close>

definition isDuplicate :: "create_result \<Rightarrow> bool" where
  "isDuplicate r = (duplicate r = Some True)"

definition updateLeaveRequestStatus ::
  "clock \<Rightarrow> nat \<Rightarrow> string \<Rightarrow> state \<Rightarrow> (error + leave_request option) \<times> state" where
  "updateLeaveRequestStatus c i st s =
     (if \<not> leaveRequestExists i s then (Inl LeaveRequestNotFound, s)
      else case map_of LEAVE_REQUEST_STATUS st of
             None \<Rightarrow> (Inl InvalidStatus, s)
           | Some v \<Rightarrow> let s1 = updateStatus (now c) i v s in (Inr (findById i s1), s1))"

definition cancelLeaveRequest :: "nat \<Rightarrow> nat \<Rightarrow> state \<Rightarrow> (error + unit) \<times> state" where
  "cancelLeaveRequest i emp s =
     (case findById i s of
        None \<Rightarrow> (Inl LeaveRequestNotFound, s)
      | Some leaveRequest \<Rightarrow>
          if employeeId leaveRequest \<noteq> emp then (Inl UnauthorizedCancel, s)
          else if status leaveRequest = REJECTED then (Inl CannotCancelRejected, s)
          else (Inr (), delete i s))"

section \<open>Asynchronous auto-processor\<close>

text \<open>
  \<open>threshold\<close> is \<open>AUTO_APPROVE_DAYS_THRESHOLD\<close>, a configuration value (2 unless set
  otherwise). The test \<open>!duration\<close> holds for \<open>null\<close> and for 0.
\<close>

definition autoProcessLeaveRequest :: "int \<Rightarrow> clock \<Rightarrow> leave_request \<Rightarrow> state \<Rightarrow> state" where
  "autoProcessLeaveRequest threshold c leaveRequest s =
     (if status leaveRequest \<noteq> PENDING then s
      else
        case calculateLeaveDuration (DateOnly (startDate leaveRequest))
               (DateOnly (endDate leaveRequest)) of
          None \<Rightarrow> s
        | Some duration \<Rightarrow>
            if duration = 0 then s
            else
              let nextStatus = (if duration \<le> threshold then APPROVED else PENDING_APPROVAL)
              in if nextStatus = status leaveRequest then s
                 else
                   let s1 = updateStatus (now c) (id' leaveRequest) nextStatus s
                   in if nextStatus = APPROVED
                      then snd (publishMessage LEAVE_APPROVED
                                  (LeaveApprovedPayload (id' leaveRequest)
                                     (employeeId leaveRequest) (startDate leaveRequest)
                                     (endDate leaveRequest) (now c)) s1)
                      else s1)"

text \<open>A consumed message: its routing key and the \<open>id\<close> of its payload, if it has one.\<close>

record queue_message =
  routingKey :: string
  payloadId :: "nat option"

definition handleQueueMessage :: "int \<Rightarrow> clock \<Rightarrow> queue_message \<Rightarrow> state \<Rightarrow> state" where
  "handleQueueMessage threshold c msg s =
     (if routingKey msg \<noteq> LEAVE_REQUESTED then s
      else case payloadId msg of
             None \<Rightarrow> s
           | Some leaveRequestId \<Rightarrow>
               if leaveRequestId = 0 then s
               else (case findById leaveRequestId s of
                       None \<Rightarrow> s
                     | Some leaveRequest \<Rightarrow> autoProcessLeaveRequest threshold c leaveRequest s))"

section \<open>Reachable states\<close>

datatype operation =
    Create clock string leaveRequestData
  | UpdateStatus clock nat string
  | Cancel nat nat
  | Consume clock queue_message

fun step :: "int \<Rightarrow> state \<Rightarrow> operation \<Rightarrow> state" where
  "step threshold s (Create c rnd d) = snd (createLeaveRequest c rnd d s)"
| "step threshold s (UpdateStatus c i st) = snd (updateLeaveRequestStatus c i st s)"
| "step threshold s (Cancel i emp) = snd (cancelLeaveRequest i emp s)"
| "step threshold s (Consume c msg) = handleQueueMessage threshold c msg s"

definition run :: "int \<Rightarrow> operation list \<Rightarrow> state \<Rightarrow> state" where
  "run threshold ops s = foldl (step threshold) s ops"

definition emptyStore :: "nat set \<Rightarrow> bool \<Rightarrow> state" where
  "emptyStore emps up =
     \<lparr>rows = [], nextId = 1, employees = emps, brokerUp = up, published = []\<rparr>"

text \<open>
  Two rows are in conflict when both are active, belong to the same employee and their
  ranges share a day; the invariant of the data model says no two rows of the table are.
\<close>

definition inConflict :: "leave_request \<Rightarrow> leave_request \<Rightarrow> bool" where
  "inConflict r q =
     (isActive (status r) \<and> isActive (status q) \<and> employeeId r = employeeId q
      \<and> rangesOverlap (startDate r) (endDate r) (startDate q) (endDate q))"

definition noActiveOverlap :: "state \<Rightarrow> bool" where
  "noActiveOverlap s = sorted_wrt (\<lambda>r q. \<not> inConflict r q) (rows s)"

text \<open>
  What the caller of \<open>createLeaveRequest\<close> observes of a result: the error, or the id of
  the returned record together with the duplicate flag.
\<close>

definition outcome :: "error + create_result \<Rightarrow> error + nat option \<times> bool" where
  "outcome res =
     (case res of
        Inl e \<Rightarrow> Inl e
      | Inr r \<Rightarrow> Inr (map_option id' (data r), isDuplicate r))"

text \<open>The operations that never change the status of a row.\<close>

fun isCreateOrCancel :: "operation \<Rightarrow> bool" where
  "isCreateOrCancel (Create c rnd d) = True"
| "isCreateOrCancel (Cancel i emp) = True"
| "isCreateOrCancel (UpdateStatus c i st) = False"
| "isCreateOrCancel (Consume c msg) = False"

section \<open>Sample data\<close>

text \<open>Small concrete stores and rows on which the statements below are evaluated.\<close>

definition sampleClock :: clock where
  "sampleClock = \<lparr>now = 1718020800000, timezoneOffset = 0\<rparr>"

definition sampleRow :: "nat \<Rightarrow> nat \<Rightarrow> int \<Rightarrow> int \<Rightarrow> status \<Rightarrow> leave_request" where
  "sampleRow i emp startD endD st =
     \<lparr>employeeId = emp, startDate = startD, endDate = endD, idempotencyKey = None,
      id' = i, status = st, processedAt = None, createdAt = 1717200000000,
      updatedAt = 1717200000000\<rparr>"

definition sampleStore :: "leave_request list \<Rightarrow> state" where
  "sampleStore rs =
     \<lparr>rows = rs, nextId = Suc (length rs), employees = {1, 2}, brokerUp = True,
      published = []\<rparr>"

text \<open>
  Two clocks at 10 June 2024 (day 19884): noon on a server running in UTC, and 15:00 UTC
  on a server four hours west of Greenwich, where it is 11:00 of the same day.
\<close>

definition westClock :: clock where
  "westClock = \<lparr>now = 1718031600000, timezoneOffset = 240\<rparr>"

definition sampleData :: "nat \<Rightarrow> int \<Rightarrow> int \<Rightarrow> string option \<Rightarrow> leaveRequestData" where
  "sampleData emp startD endD key =
     \<lparr>employeeId = emp, startDate = startD, endDate = endD, idempotencyKey = key\<rparr>"

text \<open>
  An approved three-day request of employee 1 that was created on 31 December 2024 at
  10:00 UTC.
\<close>

definition yearEndRow :: leave_request where
  "yearEndRow = (sampleRow 1 1 20090 20092 APPROVED)\<lparr>createdAt := 1735639200000\<rparr>"

text \<open>
  The row and the state that a first creation by employee 1, for 26 to 27 June 2024 with the
  key \<open>key-1\<close>, leaves behind when it runs on the empty sample store at the sample clock.
\<close>

definition createdRow :: leave_request where
  "createdRow =
     \<lparr>employeeId = 1, startDate = 19900, endDate = 19901, idempotencyKey = Some ''key-1'',
      id' = 1, status = PENDING, processedAt = None, createdAt = 1718020800000,
      updatedAt = 1718020800000\<rparr>"

definition createdStore :: state where
  "createdStore =
     \<lparr>rows = [createdRow], nextId = 2, employees = {1, 2}, brokerUp = True,
      published = [(''leave.requested'',
                    LeaveRequestedPayload 1 1 19900 19901 PENDING (Some ''key-1'')
                      1718020800000)]\<rparr>"

section \<open>Arithmetic of whole days\<close>

lemma MILLISECONDS_IN_DAY_value: "MILLISECONDS_IN_DAY = 86400000"
  by (simp add: MILLISECONDS_IN_DAY_def)

lemma ceiling_whole_days:
  "\<lceil>real_of_int (b * MILLISECONDS_IN_DAY - a * MILLISECONDS_IN_DAY)
      / real_of_int MILLISECONDS_IN_DAY\<rceil> = b - a"
proof -
  have "b * MILLISECONDS_IN_DAY - a * MILLISECONDS_IN_DAY = (b - a) * MILLISECONDS_IN_DAY"
    by (simp add: algebra_simps)
  then have "real_of_int (b * MILLISECONDS_IN_DAY - a * MILLISECONDS_IN_DAY)
      / real_of_int MILLISECONDS_IN_DAY = real_of_int (b - a)"
    by (simp add: MILLISECONDS_IN_DAY_value)
  then show ?thesis by simp
qed

lemma calculateLeaveDuration_days:
  "calculateLeaveDuration (DateOnly a) (DateOnly b) = Some (max 1 (b - a + 1))"
  unfolding calculateLeaveDuration_def
  by (simp only: newDate.simps getTime.simps option.case ceiling_whole_days)

section \<open>The overlap query\<close>

text \<open>
  Claim C3. For two well-formed ranges the match condition of the store's overlap query
  (the row starts in the candidate range, or ends in it, or covers it) holds exactly when
  the ranges intersect with both end points included, \<open>s1 \<le> e2\<close> and \<open>s2 \<le> e1\<close>. The
  ranges \<open>[1,5]\<close> and \<open>[5,8]\<close> overlap, \<open>[1,5]\<close> and \<open>[6,8]\<close> do not.
\<close>

theorem overlapCondition_iff_rangesOverlap:
  "s1 \<le> e1 \<Longrightarrow> s2 \<le> e2 \<Longrightarrow>
     (overlapCondition s1 e1 s2 e2 \<longleftrightarrow> s1 \<le> e2 \<and> s2 \<le> e1)
     \<and> overlapCondition s1 e1 s2 e2 = rangesOverlap s1 e1 s2 e2
     \<and> overlapCondition 1 5 5 8 \<and> \<not> overlapCondition 1 5 6 8"
  unfolding overlapCondition_def rangesOverlap_def by auto

theorem overlapCondition_iff_rangesOverlap_witness:
  "(2::int) \<le> 4 \<and> (3::int) \<le> 9
     \<and> (overlapCondition 2 4 3 9 \<longleftrightarrow> (2::int) \<le> 9 \<and> (3::int) \<le> 4)
     \<and> overlapCondition 2 4 3 9 = rangesOverlap 2 4 3 9
     \<and> overlapCondition 1 5 5 8 \<and> \<not> overlapCondition 1 5 6 8"
  using overlapCondition_iff_rangesOverlap [of 2 4 3 9] by auto

section \<open>The duration classifier\<close>

text \<open>
  Claim C6. For every pair of dates that parse, \<open>calculateLeaveDuration\<close> is the larger of
  1 and the ceiling of the difference in days plus 1; a single day gives 1 and day \<open>n\<close> to
  day \<open>n + 2\<close> gives 3. When either date does not parse the result is \<open>null\<close>, not a number.
\<close>

theorem calculateLeaveDuration_formula:
  "calculateLeaveDuration x y =
     (case newDate x of
        InvalidDate \<Rightarrow> None
      | Time s \<Rightarrow>
         (case newDate y of
            InvalidDate \<Rightarrow> None
          | Time e \<Rightarrow> Some (max 1 (\<lceil>real_of_int (e - s) / 86400000\<rceil> + 1))))
   \<and> calculateLeaveDuration (DateOnly n) (DateOnly n) = Some 1
   \<and> calculateLeaveDuration (DateOnly n) (DateOnly (n + 2)) = Some 3
   \<and> calculateLeaveDuration Unparseable y = None
   \<and> calculateLeaveDuration x Unparseable = None"
proof -
  have general: "calculateLeaveDuration x y =
     (case newDate x of
        InvalidDate \<Rightarrow> None
      | Time s \<Rightarrow>
         (case newDate y of
            InvalidDate \<Rightarrow> None
          | Time e \<Rightarrow> Some (max 1 (\<lceil>real_of_int (e - s) / 86400000\<rceil> + 1))))"
    unfolding calculateLeaveDuration_def
    by (cases "newDate x"; cases "newDate y") (simp_all add: MILLISECONDS_IN_DAY_value)
  have one: "calculateLeaveDuration (DateOnly n) (DateOnly n) = Some 1"
    by (simp add: calculateLeaveDuration_days)
  have three: "calculateLeaveDuration (DateOnly n) (DateOnly (n + 2)) = Some 3"
    by (simp add: calculateLeaveDuration_days)
  have left: "calculateLeaveDuration Unparseable y = None"
    by (simp add: calculateLeaveDuration_def)
  have right: "calculateLeaveDuration x Unparseable = None"
    by (simp add: calculateLeaveDuration_def split: option.splits)
  from general one three left right show ?thesis by blast
qed

section \<open>The auto-processor\<close>

lemma find_id_map_update:
  "find (\<lambda>r. id' r = i) xs = Some r \<Longrightarrow>
   find (\<lambda>r. id' r = i)
     (map (\<lambda>r. if id' r = i then r\<lparr>status := st, processedAt := Some t, updatedAt := t\<rparr> else r) xs)
   = Some (r\<lparr>status := st, processedAt := Some t, updatedAt := t\<rparr>)"
  by (induction xs) (auto split: if_splits)

lemma findById_updateStatus:
  "findById i s = Some r \<Longrightarrow>
   findById i (updateStatus t i st s) = Some (r\<lparr>status := st, processedAt := Some t, updatedAt := t\<rparr>)"
  unfolding findById_def updateStatus_def by (simp add: find_id_map_update)

lemma findById_id: "findById i s = Some r \<Longrightarrow> id' r = i"
  unfolding findById_def by (auto simp: find_Some_iff)

lemma rows_publishMessage: "rows (snd (publishMessage k m s)) = rows s"
  by (simp add: publishMessage_def)

lemma findById_publishMessage: "findById i (snd (publishMessage k m s)) = findById i s"
  by (simp add: findById_def rows_publishMessage)

lemma published_publishMessage:
  "published (snd (publishMessage k m s)) = published s @ (if brokerUp s then [(k, m)] else [])"
  by (simp add: publishMessage_def)

lemma published_updateStatus: "published (updateStatus t i st s) = published s"
  by (simp add: updateStatus_def)

lemma brokerUp_updateStatus: "brokerUp (updateStatus t i st s) = brokerUp s"
  by (simp add: updateStatus_def)

lemma autoProcessLeaveRequest_pending:
  "status lr = PENDING \<Longrightarrow>
   autoProcessLeaveRequest threshold c lr s =
     (if max 1 (endDate lr - startDate lr + 1) \<le> threshold
      then snd (publishMessage LEAVE_APPROVED
                  (LeaveApprovedPayload (id' lr) (employeeId lr) (startDate lr) (endDate lr) (now c))
                  (updateStatus (now c) (id' lr) APPROVED s))
      else updateStatus (now c) (id' lr) PENDING_APPROVAL s)"
  unfolding autoProcessLeaveRequest_def
  by (simp add: calculateLeaveDuration_days Let_def)

text \<open>
  Claim C4. For a fetched request in status \<open>PENDING\<close> (its dates, being calendar dates of
  the store, always parse) the duration is the inclusive day count. When it is at most the
  threshold the auto-processor sets the stored status to \<open>APPROVED\<close> and hands one
  \<open>leave.approved\<close> event to the transport (which takes it when the channel is up; a
  failure is logged); when it exceeds the threshold the status becomes
  \<open>PENDING_APPROVAL\<close> and nothing is published.
\<close>

theorem autoProcessLeaveRequest_threshold:
  assumes "findById i s = Some lr" and "status lr = PENDING"
  shows "calculateLeaveDuration (DateOnly (startDate lr)) (DateOnly (endDate lr))
           = Some (max 1 (endDate lr - startDate lr + 1))
    \<and> (max 1 (endDate lr - startDate lr + 1) \<le> threshold \<longrightarrow>
         findById i (autoProcessLeaveRequest threshold c lr s)
           = Some (lr\<lparr>status := APPROVED, processedAt := Some (now c), updatedAt := now c\<rparr>)
         \<and> published (autoProcessLeaveRequest threshold c lr s)
           = published s @
               (if brokerUp s
                then [(LEAVE_APPROVED,
                       LeaveApprovedPayload i (employeeId lr) (startDate lr) (endDate lr) (now c))]
                else []))
    \<and> (threshold < max 1 (endDate lr - startDate lr + 1) \<longrightarrow>
         findById i (autoProcessLeaveRequest threshold c lr s)
           = Some (lr\<lparr>status := PENDING_APPROVAL, processedAt := Some (now c),
                       updatedAt := now c\<rparr>)
         \<and> published (autoProcessLeaveRequest threshold c lr s) = published s)"
proof -
  have idlr: "id' lr = i" using assms(1) by (rule findById_id)
  have short: "max 1 (endDate lr - startDate lr + 1) \<le> threshold \<Longrightarrow>
         findById i (autoProcessLeaveRequest threshold c lr s)
           = Some (lr\<lparr>status := APPROVED, processedAt := Some (now c), updatedAt := now c\<rparr>)
         \<and> published (autoProcessLeaveRequest threshold c lr s)
           = published s @
               (if brokerUp s
                then [(LEAVE_APPROVED,
                       LeaveApprovedPayload i (employeeId lr) (startDate lr) (endDate lr) (now c))]
                else [])"
    using assms idlr
    by (simp add: autoProcessLeaveRequest_pending findById_publishMessage findById_updateStatus
          published_publishMessage published_updateStatus brokerUp_updateStatus)
  have long: "findById i (autoProcessLeaveRequest threshold c lr s)
           = Some (lr\<lparr>status := PENDING_APPROVAL, processedAt := Some (now c),
                       updatedAt := now c\<rparr>)
         \<and> published (autoProcessLeaveRequest threshold c lr s) = published s"
    if h: "threshold < max 1 (endDate lr - startDate lr + 1)"
  proof -
    from h have "\<not> max 1 (endDate lr - startDate lr + 1) \<le> threshold"
      by (simp only: not_le)
    then have "autoProcessLeaveRequest threshold c lr s
        = updateStatus (now c) (id' lr) PENDING_APPROVAL s"
      by (simp only: autoProcessLeaveRequest_pending [OF assms(2)] if_False)
    then show ?thesis
      using assms(1) idlr by (simp add: findById_updateStatus published_updateStatus)
  qed
  from short long show ?thesis by (simp add: calculateLeaveDuration_days)
qed

lemma autoProcessLeaveRequest_not_pending:
  "status lr \<noteq> PENDING \<Longrightarrow> autoProcessLeaveRequest threshold c lr s = s"
  by (simp add: autoProcessLeaveRequest_def)

lemma handleQueueMessage_not_pending:
  "payloadId msg = Some i \<Longrightarrow> findById i s = Some lr \<Longrightarrow> status lr \<noteq> PENDING \<Longrightarrow>
   handleQueueMessage threshold c msg s = s"
  by (simp add: handleQueueMessage_def autoProcessLeaveRequest_not_pending)

text \<open>
  Claim C5. A consumed message whose re-fetched record is not in status \<open>PENDING\<close> leaves
  the whole state as it is: no row changes and nothing is published. So a replay of a
  message, after the first delivery has moved the record to \<open>APPROVED\<close>, changes nothing.
\<close>

theorem handleQueueMessage_reprocessing_guard:
  "(payloadId msg = Some i \<and> findById i s = Some lr \<and> status lr \<noteq> PENDING \<longrightarrow>
      handleQueueMessage threshold c msg s = s)
   \<and> (payloadId msg = Some i
        \<and> findById i (handleQueueMessage threshold c msg s) = Some lr'
        \<and> status lr' = APPROVED \<longrightarrow>
      handleQueueMessage threshold c' msg (handleQueueMessage threshold c msg s)
        = handleQueueMessage threshold c msg s)"
  by (auto simp: handleQueueMessage_not_pending)

lemma ceiling_negative:
  assumes "b < a"
  shows "\<lceil>real_of_int (b - a) / real_of_int MILLISECONDS_IN_DAY\<rceil> \<le> 0"
proof -
  have "real_of_int (b - a) / real_of_int MILLISECONDS_IN_DAY \<le> 0"
    using assms by (simp add: MILLISECONDS_IN_DAY_value divide_le_0_iff)
  then show ?thesis by (simp add: ceiling_le_iff)
qed

text \<open>
  Claim C10. On dates that parse \<open>calculateLeaveDuration\<close> returns a number that is at
  least 1; when the end lies before the start it returns 1. Hence a stored \<open>PENDING\<close>
  record with reversed dates is approved by the auto-processor whenever the threshold is
  at least 1 (it is 2 unless configured otherwise).
\<close>

theorem calculateLeaveDuration_reversed_dates:
  "(newDate x = Time a \<and> newDate y = Time b \<longrightarrow>
      (\<exists>d. calculateLeaveDuration x y = Some d \<and> 1 \<le> d))
   \<and> (newDate x = Time a \<and> newDate y = Time b \<and> b < a \<longrightarrow>
      calculateLeaveDuration x y = Some 1)
   \<and> (findById i s = Some lr \<and> status lr = PENDING \<and> endDate lr < startDate lr
        \<and> 1 \<le> threshold \<longrightarrow>
      findById i (autoProcessLeaveRequest threshold c lr s)
        = Some (lr\<lparr>status := APPROVED, processedAt := Some (now c), updatedAt := now c\<rparr>))"
proof -
  have total: "newDate x = Time a \<and> newDate y = Time b \<longrightarrow>
      (\<exists>d. calculateLeaveDuration x y = Some d \<and> 1 \<le> d)"
    by (simp add: calculateLeaveDuration_def)
  have reversed: "newDate x = Time a \<and> newDate y = Time b \<and> b < a \<longrightarrow>
      calculateLeaveDuration x y = Some 1"
    using ceiling_negative [of b a] by (auto simp: calculateLeaveDuration_def)
  have approved: "findById i s = Some lr \<and> status lr = PENDING \<and> endDate lr < startDate lr
        \<and> 1 \<le> threshold \<longrightarrow>
      findById i (autoProcessLeaveRequest threshold c lr s)
        = Some (lr\<lparr>status := APPROVED, processedAt := Some (now c), updatedAt := now c\<rparr>)"
  proof (intro impI, elim conjE)
    assume h: "findById i s = Some lr" "status lr = PENDING" "endDate lr < startDate lr"
      "1 \<le> threshold"
    have "id' lr = i" using h(1) by (rule findById_id)
    moreover have "max 1 (endDate lr - startDate lr + 1) = 1" using h(3) by simp
    ultimately show "findById i (autoProcessLeaveRequest threshold c lr s)
        = Some (lr\<lparr>status := APPROVED, processedAt := Some (now c), updatedAt := now c\<rparr>)"
      using h by (simp add: autoProcessLeaveRequest_pending findById_publishMessage
            findById_updateStatus)
  qed
  from total reversed approved show ?thesis by blast
qed


theorem autoProcessLeaveRequest_threshold_witness:
  "findById 1 (sampleStore [sampleRow 1 1 19900 19901 PENDING])
      = Some (sampleRow 1 1 19900 19901 PENDING)
   \<and> status (sampleRow 1 1 19900 19901 PENDING) = PENDING
   \<and> max 1 (endDate (sampleRow 1 1 19900 19901 PENDING)
              - startDate (sampleRow 1 1 19900 19901 PENDING) + 1) \<le> 2
   \<and> findById 1 (autoProcessLeaveRequest 2 sampleClock (sampleRow 1 1 19900 19901 PENDING)
        (sampleStore [sampleRow 1 1 19900 19901 PENDING]))
      = Some ((sampleRow 1 1 19900 19901 PENDING)
          \<lparr>status := APPROVED, processedAt := Some (now sampleClock),
            updatedAt := now sampleClock\<rparr>)
   \<and> published (autoProcessLeaveRequest 2 sampleClock (sampleRow 1 1 19900 19901 PENDING)
        (sampleStore [sampleRow 1 1 19900 19901 PENDING]))
      = [(LEAVE_APPROVED, LeaveApprovedPayload 1 1 19900 19901 (now sampleClock))]
   \<and> findById 1 (sampleStore [sampleRow 1 1 19900 19902 PENDING])
      = Some (sampleRow 1 1 19900 19902 PENDING)
   \<and> status (sampleRow 1 1 19900 19902 PENDING) = PENDING
   \<and> 2 < max 1 (endDate (sampleRow 1 1 19900 19902 PENDING)
              - startDate (sampleRow 1 1 19900 19902 PENDING) + 1)
   \<and> findById 1 (autoProcessLeaveRequest 2 sampleClock (sampleRow 1 1 19900 19902 PENDING)
        (sampleStore [sampleRow 1 1 19900 19902 PENDING]))
      = Some ((sampleRow 1 1 19900 19902 PENDING)
          \<lparr>status := PENDING_APPROVAL, processedAt := Some (now sampleClock),
            updatedAt := now sampleClock\<rparr>)
   \<and> published (autoProcessLeaveRequest 2 sampleClock (sampleRow 1 1 19900 19902 PENDING)
        (sampleStore [sampleRow 1 1 19900 19902 PENDING])) = []"
proof -
  have f2: "findById 1 (sampleStore [sampleRow 1 1 19900 19901 PENDING])
      = Some (sampleRow 1 1 19900 19901 PENDING)"
    by (simp add: findById_def sampleStore_def sampleRow_def)
  have p2: "status (sampleRow 1 1 19900 19901 PENDING) = PENDING"
    by (simp add: sampleRow_def)
  have d2: "max 1 (endDate (sampleRow 1 1 19900 19901 PENDING)
              - startDate (sampleRow 1 1 19900 19901 PENDING) + 1) \<le> 2"
    by (simp add: sampleRow_def)
  have f3: "findById 1 (sampleStore [sampleRow 1 1 19900 19902 PENDING])
      = Some (sampleRow 1 1 19900 19902 PENDING)"
    by (simp add: findById_def sampleStore_def sampleRow_def)
  have p3: "status (sampleRow 1 1 19900 19902 PENDING) = PENDING"
    by (simp add: sampleRow_def)
  have d3: "2 < max 1 (endDate (sampleRow 1 1 19900 19902 PENDING)
              - startDate (sampleRow 1 1 19900 19902 PENDING) + 1)"
    by (simp add: sampleRow_def)
  have up: "brokerUp (sampleStore rs)" "published (sampleStore rs) = []" for rs
    by (simp_all add: sampleStore_def)
  have sel: "employeeId (sampleRow i e a b st) = e" "startDate (sampleRow i e a b st) = a"
    "endDate (sampleRow i e a b st) = b" for i e a b st
    by (simp_all add: sampleRow_def)
  note short = autoProcessLeaveRequest_threshold [OF f2 p2, of 2 sampleClock]
  note long = autoProcessLeaveRequest_threshold [OF f3 p3, of 2 sampleClock]
  from short d2 have a: "findById 1 (autoProcessLeaveRequest 2 sampleClock
        (sampleRow 1 1 19900 19901 PENDING) (sampleStore [sampleRow 1 1 19900 19901 PENDING]))
      = Some ((sampleRow 1 1 19900 19901 PENDING)
          \<lparr>status := APPROVED, processedAt := Some (now sampleClock),
            updatedAt := now sampleClock\<rparr>)
   \<and> published (autoProcessLeaveRequest 2 sampleClock (sampleRow 1 1 19900 19901 PENDING)
        (sampleStore [sampleRow 1 1 19900 19901 PENDING]))
      = [(LEAVE_APPROVED, LeaveApprovedPayload 1 1 19900 19901 (now sampleClock))]"
    by (simp add: up sel)
  from long d3 have b: "findById 1 (autoProcessLeaveRequest 2 sampleClock
        (sampleRow 1 1 19900 19902 PENDING) (sampleStore [sampleRow 1 1 19900 19902 PENDING]))
      = Some ((sampleRow 1 1 19900 19902 PENDING)
          \<lparr>status := PENDING_APPROVAL, processedAt := Some (now sampleClock),
            updatedAt := now sampleClock\<rparr>)
   \<and> published (autoProcessLeaveRequest 2 sampleClock (sampleRow 1 1 19900 19902 PENDING)
        (sampleStore [sampleRow 1 1 19900 19902 PENDING])) = []"
    by (simp add: up sel)
  from f2 p2 d2 a f3 p3 d3 b show ?thesis by blast
qed

theorem handleQueueMessage_reprocessing_guard_witness:
  "payloadId \<lparr>routingKey = LEAVE_REQUESTED, payloadId = Some 1\<rparr> = Some 1
   \<and> findById 1 (sampleStore [sampleRow 1 1 19900 19901 APPROVED])
       = Some (sampleRow 1 1 19900 19901 APPROVED)
   \<and> status (sampleRow 1 1 19900 19901 APPROVED) \<noteq> PENDING
   \<and> handleQueueMessage 2 sampleClock \<lparr>routingKey = LEAVE_REQUESTED, payloadId = Some 1\<rparr>
        (sampleStore [sampleRow 1 1 19900 19901 APPROVED])
       = sampleStore [sampleRow 1 1 19900 19901 APPROVED]
   \<and> findById 1 (handleQueueMessage 2 sampleClock
          \<lparr>routingKey = LEAVE_REQUESTED, payloadId = Some 1\<rparr>
          (sampleStore [sampleRow 1 1 19900 19901 PENDING]))
       = Some ((sampleRow 1 1 19900 19901 PENDING)
           \<lparr>status := APPROVED, processedAt := Some (now sampleClock),
             updatedAt := now sampleClock\<rparr>)
   \<and> status ((sampleRow 1 1 19900 19901 PENDING)
           \<lparr>status := APPROVED, processedAt := Some (now sampleClock),
             updatedAt := now sampleClock\<rparr>) = APPROVED
   \<and> handleQueueMessage 2 sampleClock \<lparr>routingKey = LEAVE_REQUESTED, payloadId = Some 1\<rparr>
        (handleQueueMessage 2 sampleClock \<lparr>routingKey = LEAVE_REQUESTED, payloadId = Some 1\<rparr>
          (sampleStore [sampleRow 1 1 19900 19901 PENDING]))
       = handleQueueMessage 2 sampleClock \<lparr>routingKey = LEAVE_REQUESTED, payloadId = Some 1\<rparr>
          (sampleStore [sampleRow 1 1 19900 19901 PENDING])"
proof -
  let ?msg = "\<lparr>routingKey = LEAVE_REQUESTED, payloadId = Some (1::nat)\<rparr>"
  have f: "findById 1 (sampleStore [sampleRow 1 1 19900 19901 APPROVED])
       = Some (sampleRow 1 1 19900 19901 APPROVED)"
    by (simp add: findById_def sampleStore_def sampleRow_def)
  have st: "status (sampleRow 1 1 19900 19901 APPROVED) \<noteq> PENDING"
    by (simp add: sampleRow_def)
  have fp: "findById 1 (sampleStore [sampleRow 1 1 19900 19901 PENDING])
       = Some (sampleRow 1 1 19900 19901 PENDING)"
    by (simp add: findById_def sampleStore_def sampleRow_def)
  have run: "handleQueueMessage 2 sampleClock ?msg (sampleStore [sampleRow 1 1 19900 19901 PENDING])
      = autoProcessLeaveRequest 2 sampleClock (sampleRow 1 1 19900 19901 PENDING)
          (sampleStore [sampleRow 1 1 19900 19901 PENDING])"
    using fp by (simp add: handleQueueMessage_def)
  have after: "findById 1 (handleQueueMessage 2 sampleClock ?msg
          (sampleStore [sampleRow 1 1 19900 19901 PENDING]))
       = Some ((sampleRow 1 1 19900 19901 PENDING)
           \<lparr>status := APPROVED, processedAt := Some (now sampleClock),
             updatedAt := now sampleClock\<rparr>)"
    unfolding run
    by (simp add: autoProcessLeaveRequest_pending publishMessage_def findById_def
          updateStatus_def sampleStore_def sampleRow_def)
  have ap: "status ((sampleRow 1 1 19900 19901 PENDING)
           \<lparr>status := APPROVED, processedAt := Some (now sampleClock),
             updatedAt := now sampleClock\<rparr>) = APPROVED"
    by simp
  note first = handleQueueMessage_reprocessing_guard [of ?msg 1 "sampleStore [sampleRow 1 1 19900 19901 APPROVED]"
      "sampleRow 1 1 19900 19901 APPROVED" 2 sampleClock]
  note replay = handleQueueMessage_reprocessing_guard [of ?msg 1 "sampleStore [sampleRow 1 1 19900 19901 PENDING]" _ 2
      sampleClock "(sampleRow 1 1 19900 19901 PENDING)
           \<lparr>status := APPROVED, processedAt := Some (now sampleClock),
             updatedAt := now sampleClock\<rparr>" sampleClock]
  from first f st have a: "handleQueueMessage 2 sampleClock ?msg
        (sampleStore [sampleRow 1 1 19900 19901 APPROVED])
       = sampleStore [sampleRow 1 1 19900 19901 APPROVED]"
    by simp
  from replay after ap have b: "handleQueueMessage 2 sampleClock ?msg
        (handleQueueMessage 2 sampleClock ?msg (sampleStore [sampleRow 1 1 19900 19901 PENDING]))
       = handleQueueMessage 2 sampleClock ?msg (sampleStore [sampleRow 1 1 19900 19901 PENDING])"
    by simp
  from f st a after ap b show ?thesis by simp
qed

theorem calculateLeaveDuration_reversed_dates_witness:
  "newDate (Instant 1000) = Time 1000 \<and> newDate (DateOnly 0) = Time 0 \<and> (0::int) < 1000
   \<and> (\<exists>d. calculateLeaveDuration (Instant 1000) (DateOnly 0) = Some d \<and> 1 \<le> d)
   \<and> calculateLeaveDuration (Instant 1000) (DateOnly 0) = Some 1
   \<and> findById 1 (sampleStore [sampleRow 1 1 19905 19900 PENDING])
       = Some (sampleRow 1 1 19905 19900 PENDING)
   \<and> status (sampleRow 1 1 19905 19900 PENDING) = PENDING
   \<and> endDate (sampleRow 1 1 19905 19900 PENDING) < startDate (sampleRow 1 1 19905 19900 PENDING)
   \<and> (1::int) \<le> 2
   \<and> findById 1 (autoProcessLeaveRequest 2 sampleClock (sampleRow 1 1 19905 19900 PENDING)
         (sampleStore [sampleRow 1 1 19905 19900 PENDING]))
       = Some ((sampleRow 1 1 19905 19900 PENDING)
           \<lparr>status := APPROVED, processedAt := Some (now sampleClock),
             updatedAt := now sampleClock\<rparr>)"
proof -
  have n1: "newDate (Instant 1000) = Time 1000" by simp
  have n2: "newDate (DateOnly 0) = Time 0" by simp
  have f: "findById 1 (sampleStore [sampleRow 1 1 19905 19900 PENDING])
       = Some (sampleRow 1 1 19905 19900 PENDING)"
    by (simp add: findById_def sampleStore_def sampleRow_def)
  have p: "status (sampleRow 1 1 19905 19900 PENDING) = PENDING"
    by (simp add: sampleRow_def)
  have r: "endDate (sampleRow 1 1 19905 19900 PENDING)
      < startDate (sampleRow 1 1 19905 19900 PENDING)"
    by (simp add: sampleRow_def)
  note inst = calculateLeaveDuration_reversed_dates [of "Instant 1000" 1000 "DateOnly 0" 0 1
      "sampleStore [sampleRow 1 1 19905 19900 PENDING]" "sampleRow 1 1 19905 19900 PENDING"
      2 sampleClock]
  from inst n1 n2 f p r show ?thesis by simp
qed

section \<open>Cancellation\<close>

lemma findById_delete: "findById i (delete i s) = None"
  unfolding findById_def delete_def by (simp add: find_None_iff)

text \<open>
  Claim C8. \<open>cancelLeaveRequest\<close> fails with the not-found error when no row has the
  id, with the unauthorized error when the row belongs to another employee, with the
  invalid-state error when the owner's row is \<open>REJECTED\<close>, and otherwise deletes the row,
  which is then no longer found. Whenever it fails the state is unchanged.
\<close>

theorem cancelLeaveRequest_outcomes:
  "(findById i s = None \<longrightarrow>
      cancelLeaveRequest i emp s = (Inl LeaveRequestNotFound, s))
   \<and> (findById i s = Some lr \<and> employeeId lr \<noteq> emp \<longrightarrow>
      cancelLeaveRequest i emp s = (Inl UnauthorizedCancel, s))
   \<and> (findById i s = Some lr \<and> employeeId lr = emp \<and> status lr = REJECTED \<longrightarrow>
      cancelLeaveRequest i emp s = (Inl CannotCancelRejected, s))
   \<and> (findById i s = Some lr \<and> employeeId lr = emp \<and> status lr \<noteq> REJECTED \<longrightarrow>
      cancelLeaveRequest i emp s = (Inr (), delete i s)
      \<and> rows (delete i s) = filter (\<lambda>r. id' r \<noteq> i) (rows s)
      \<and> findById i (delete i s) = None)
   \<and> (fst (cancelLeaveRequest i emp s) = Inl e \<longrightarrow> snd (cancelLeaveRequest i emp s) = s)
   \<and> kind LeaveRequestNotFound = NotFound
   \<and> kind UnauthorizedCancel = Unauthorized
   \<and> kind CannotCancelRejected = InvalidState"
proof -
  have rows_delete: "rows (delete i s) = filter (\<lambda>r. id' r \<noteq> i) (rows s)"
    by (simp add: delete_def)
  show ?thesis
    by (auto simp: cancelLeaveRequest_def findById_delete rows_delete
          split: option.splits if_splits)
qed

theorem cancelLeaveRequest_outcomes_witness:
  "findById 7 (sampleStore [sampleRow 1 1 19900 19901 APPROVED, sampleRow 2 2 19900 19901 REJECTED])
     = None
   \<and> cancelLeaveRequest 7 1
        (sampleStore [sampleRow 1 1 19900 19901 APPROVED, sampleRow 2 2 19900 19901 REJECTED])
     = (Inl LeaveRequestNotFound,
        sampleStore [sampleRow 1 1 19900 19901 APPROVED, sampleRow 2 2 19900 19901 REJECTED])
   \<and> findById 1 (sampleStore [sampleRow 1 1 19900 19901 APPROVED, sampleRow 2 2 19900 19901 REJECTED])
     = Some (sampleRow 1 1 19900 19901 APPROVED)
   \<and> employeeId (sampleRow 1 1 19900 19901 APPROVED) \<noteq> 2
   \<and> cancelLeaveRequest 1 2
        (sampleStore [sampleRow 1 1 19900 19901 APPROVED, sampleRow 2 2 19900 19901 REJECTED])
     = (Inl UnauthorizedCancel,
        sampleStore [sampleRow 1 1 19900 19901 APPROVED, sampleRow 2 2 19900 19901 REJECTED])
   \<and> findById 2 (sampleStore [sampleRow 1 1 19900 19901 APPROVED, sampleRow 2 2 19900 19901 REJECTED])
     = Some (sampleRow 2 2 19900 19901 REJECTED)
   \<and> employeeId (sampleRow 2 2 19900 19901 REJECTED) = 2
   \<and> status (sampleRow 2 2 19900 19901 REJECTED) = REJECTED
   \<and> cancelLeaveRequest 2 2
        (sampleStore [sampleRow 1 1 19900 19901 APPROVED, sampleRow 2 2 19900 19901 REJECTED])
     = (Inl CannotCancelRejected,
        sampleStore [sampleRow 1 1 19900 19901 APPROVED, sampleRow 2 2 19900 19901 REJECTED])
   \<and> employeeId (sampleRow 1 1 19900 19901 APPROVED) = 1
   \<and> status (sampleRow 1 1 19900 19901 APPROVED) \<noteq> REJECTED
   \<and> fst (cancelLeaveRequest 1 1
        (sampleStore [sampleRow 1 1 19900 19901 APPROVED, sampleRow 2 2 19900 19901 REJECTED]))
     = Inr ()
   \<and> findById 1 (snd (cancelLeaveRequest 1 1
        (sampleStore [sampleRow 1 1 19900 19901 APPROVED, sampleRow 2 2 19900 19901 REJECTED])))
     = None
   \<and> fst (cancelLeaveRequest 2 2
        (sampleStore [sampleRow 1 1 19900 19901 APPROVED, sampleRow 2 2 19900 19901 REJECTED]))
     = Inl CannotCancelRejected
   \<and> snd (cancelLeaveRequest 2 2
        (sampleStore [sampleRow 1 1 19900 19901 APPROVED, sampleRow 2 2 19900 19901 REJECTED]))
     = sampleStore [sampleRow 1 1 19900 19901 APPROVED, sampleRow 2 2 19900 19901 REJECTED]"
proof -
  let ?s = "sampleStore [sampleRow 1 1 19900 19901 APPROVED, sampleRow 2 2 19900 19901 REJECTED]"
  have f7: "findById 7 ?s = None"
    by (simp add: findById_def sampleStore_def sampleRow_def)
  have f1: "findById 1 ?s = Some (sampleRow 1 1 19900 19901 APPROVED)"
    by (simp add: findById_def sampleStore_def sampleRow_def)
  have f2: "findById 2 ?s = Some (sampleRow 2 2 19900 19901 REJECTED)"
    by (simp add: findById_def sampleStore_def sampleRow_def)
  have e1: "employeeId (sampleRow 1 1 19900 19901 APPROVED) = 1"
    "employeeId (sampleRow 1 1 19900 19901 APPROVED) \<noteq> 2"
    "status (sampleRow 1 1 19900 19901 APPROVED) \<noteq> REJECTED"
    by (simp_all add: sampleRow_def)
  have e2: "employeeId (sampleRow 2 2 19900 19901 REJECTED) = 2"
    "status (sampleRow 2 2 19900 19901 REJECTED) = REJECTED"
    by (simp_all add: sampleRow_def)
  note absent = cancelLeaveRequest_outcomes [where i = 7 and s = ?s and emp = 1]
  note other = cancelLeaveRequest_outcomes [where i = 1 and s = ?s and emp = 2
      and lr = "sampleRow 1 1 19900 19901 APPROVED"]
  note rejected = cancelLeaveRequest_outcomes [where i = 2 and s = ?s and emp = 2
      and lr = "sampleRow 2 2 19900 19901 REJECTED" and e = CannotCancelRejected]
  note owner = cancelLeaveRequest_outcomes [where i = 1 and s = ?s and emp = 1
      and lr = "sampleRow 1 1 19900 19901 APPROVED"]
  from absent f7 have a: "cancelLeaveRequest 7 1 ?s = (Inl LeaveRequestNotFound, ?s)" by blast
  from other f1 e1 have b: "cancelLeaveRequest 1 2 ?s = (Inl UnauthorizedCancel, ?s)" by blast
  from rejected f2 e2 have c: "cancelLeaveRequest 2 2 ?s = (Inl CannotCancelRejected, ?s)"
    by blast
  from owner f1 e1 have d: "cancelLeaveRequest 1 1 ?s = (Inr (), delete 1 ?s)"
    "findById 1 (delete 1 ?s) = None" by blast+
  from c have c': "fst (cancelLeaveRequest 2 2 ?s) = Inl CannotCancelRejected" by simp
  from rejected c' have g: "snd (cancelLeaveRequest 2 2 ?s) = ?s" by blast
  from d have d': "fst (cancelLeaveRequest 1 1 ?s) = Inr ()"
    "findById 1 (snd (cancelLeaveRequest 1 1 ?s)) = None" by simp_all
  from f7 a f1 e1 b f2 e2 c d' c' g show ?thesis by blast
qed

section \<open>Past-date rejection\<close>

lemma past_instant:
  "dateLess (newDate (DateOnly d)) (Time (startOfToday c))
     \<longleftrightarrow> d * 86400000 < currentDay c * 86400000 + timezoneOffset c * 60000"
  by (simp add: startOfToday_def currentDay_def MILLISECONDS_IN_DAY_value)

lemma createLeaveRequest_past_rejected:
  assumes "employeeExists (employeeId d) s" and "startDate d \<le> endDate d"
    and "startDate d < currentDay c" and "- 1440 < timezoneOffset c"
  shows "createLeaveRequest c rnd d s = (Inl PastDates, s)"
proof -
  have "startDate d * 86400000 < currentDay c * 86400000 + timezoneOffset c * 60000"
    using assms(3,4) by arith
  then have "dateLess (newDate (DateOnly (startDate d))) (Time (startOfToday c))"
    by (simp only: past_instant)
  moreover have "\<not> dateLess (newDate (DateOnly (endDate d))) (newDate (DateOnly (startDate d)))"
    using assms(2) by (simp add: MILLISECONDS_IN_DAY_value)
  ultimately show ?thesis
    using assms(1) by (simp add: createLeaveRequest_def Let_def)
qed

lemma createLeaveRequest_today_accepted:
  assumes "startDate d = currentDay c" and "timezoneOffset c \<le> 0"
  shows "fst (createLeaveRequest c rnd d s) \<noteq> Inl PastDates"
proof -
  have "\<not> startDate d * 86400000 < currentDay c * 86400000 + timezoneOffset c * 60000"
    using assms by arith
  then have "\<not> dateLess (newDate (DateOnly (startDate d))) (Time (startOfToday c))"
    unfolding past_instant .
  then show ?thesis
    by (auto simp: createLeaveRequest_def Let_def create_def split: option.splits sum.splits)
qed

lemma createLeaveRequest_today_rejected_west:
  assumes "employeeExists (employeeId d) s" and "startDate d \<le> endDate d"
    and "startDate d = currentDay c" and "0 < timezoneOffset c"
  shows "createLeaveRequest c rnd d s = (Inl PastDates, s)"
proof -
  have "startDate d * 86400000 < currentDay c * 86400000 + timezoneOffset c * 60000"
    using assms(3,4) by arith
  then have "dateLess (newDate (DateOnly (startDate d))) (Time (startOfToday c))"
    by (simp only: past_instant)
  moreover have "\<not> dateLess (newDate (DateOnly (endDate d))) (newDate (DateOnly (startDate d)))"
    using assms(2) by (simp add: MILLISECONDS_IN_DAY_value)
  ultimately show ?thesis
    using assms(1) by (simp add: createLeaveRequest_def Let_def)
qed

text \<open>
  Claim C9. A creation request whose start date lies before the current calendar day
  fails with the past-dates error and persists nothing, and a start date equal to the
  current day is accepted. The first half holds in every zone and the second on a server
  in UTC or east of it (the three lemmas above). West of Greenwich the code departs from
  the claim: the start date is read as midnight UTC and compared with local midnight, so
  at 11:00 local time on 10 June 2024, four hours west, a request that starts on 10 June
  is refused as a past date.
\<close>

theorem createLeaveRequest_today_west_clock:
  "currentDay westClock = 19884
   \<and> employeeExists 1 (sampleStore [])
   \<and> createLeaveRequest westClock ''5f2a'' (sampleData 1 19884 19884 (Some ''key-1''))
        (sampleStore [])
     = (Inl PastDates, sampleStore [])"
proof -
  have day: "currentDay westClock = 19884"
    by (simp add: currentDay_def westClock_def MILLISECONDS_IN_DAY_value)
  have emp: "employeeExists 1 (sampleStore [])"
    by (simp add: employeeExists_def sampleStore_def)
  have "createLeaveRequest westClock ''5f2a'' (sampleData 1 19884 19884 (Some ''key-1''))
        (sampleStore []) = (Inl PastDates, sampleStore [])"
    by (simp add: createLeaveRequest_def sampleData_def westClock_def sampleStore_def
        employeeExists_def startOfToday_def MILLISECONDS_IN_DAY_value Let_def)
  with day emp show ?thesis by simp
qed

section \<open>Statistics\<close>

lemma statsStep_days:
  "\<lceil>real_of_int (e * MILLISECONDS_IN_DAY - s * MILLISECONDS_IN_DAY)
      / real_of_int (1000 * 60 * 60 * 24)\<rceil> = e - s"
  using ceiling_whole_days [of e s] by (simp add: MILLISECONDS_IN_DAY_value)

lemma statsStep_eq:
  "statsStep st r =
     (if status r = APPROVED
        then st\<lparr>approved := approved st + 1,
                totalDays := totalDays st + (endDate r - startDate r + 1)\<rparr>
      else if status r = PENDING \<or> status r = PENDING_APPROVAL
        then st\<lparr>pending := pending st + 1\<rparr>
      else st\<lparr>rejected := rejected st + 1\<rparr>)"
  unfolding statsStep_def by (cases "status r") (simp_all only: statsStep_days Let_def status.distinct if_True if_False simp_thms)



lemma statsStep_fields:
  "total (statsStep st r) = total st"
  "approved (statsStep st r) = approved st + (if status r = APPROVED then 1 else 0)"
  "pending (statsStep st r)
     = pending st + (if status r = PENDING \<or> status r = PENDING_APPROVAL then 1 else 0)"
  "rejected (statsStep st r) = rejected st + (if status r = REJECTED then 1 else 0)"
  "totalDays (statsStep st r)
     = totalDays st + (if status r = APPROVED then endDate r - startDate r + 1 else 0)"
  by (cases "status r"; simp add: statsStep_eq)+

lemma foldl_statsStep_total: "total (foldl statsStep st rs) = total st"
  by (induction rs arbitrary: st) (simp_all add: statsStep_fields)

lemma foldl_statsStep_approved:
  "approved (foldl statsStep st rs) = approved st + length (filter (\<lambda>r. status r = APPROVED) rs)"
  by (induction rs arbitrary: st) (simp_all add: statsStep_fields)

lemma foldl_statsStep_pending:
  "pending (foldl statsStep st rs)
     = pending st + length (filter (\<lambda>r. status r = PENDING \<or> status r = PENDING_APPROVAL) rs)"
  by (induction rs arbitrary: st) (simp_all add: statsStep_fields)

lemma foldl_statsStep_rejected:
  "rejected (foldl statsStep st rs) = rejected st + length (filter (\<lambda>r. status r = REJECTED) rs)"
  by (induction rs arbitrary: st) (simp_all add: statsStep_fields)

lemma foldl_statsStep_totalDays:
  "totalDays (foldl statsStep st rs)
     = totalDays st
       + sum_list (map (\<lambda>r. endDate r - startDate r + 1) (filter (\<lambda>r. status r = APPROVED) rs))"
  by (induction rs arbitrary: st) (simp_all add: statsStep_fields)

lemma getEmployeeStats_counts:
  "total (getEmployeeStats c emp year s) = length (statsWindow c emp year s)
   \<and> approved (getEmployeeStats c emp year s)
       = length (filter (\<lambda>r. status r = APPROVED) (statsWindow c emp year s))
   \<and> pending (getEmployeeStats c emp year s)
       = length (filter (\<lambda>r. status r = PENDING \<or> status r = PENDING_APPROVAL)
           (statsWindow c emp year s))
   \<and> rejected (getEmployeeStats c emp year s)
       = length (filter (\<lambda>r. status r = REJECTED) (statsWindow c emp year s))
   \<and> totalDays (getEmployeeStats c emp year s)
       = sum_list (map (\<lambda>r. endDate r - startDate r + 1)
           (filter (\<lambda>r. status r = APPROVED) (statsWindow c emp year s)))"
  unfolding getEmployeeStats_def statsWindow_def Let_def
  by (simp add: foldl_statsStep_total foldl_statsStep_approved foldl_statsStep_pending
      foldl_statsStep_rejected foldl_statsStep_totalDays)

lemma year_bounds_2024:
  "newLocalDate sampleClock 2024 0 1 = 1704067200000"
  "newLocalDate sampleClock 2024 11 31 = 1735603200000"
  "newLocalDate sampleClock 2025 0 1 = 1735689600000"
  by (simp_all add: newLocalDate_def daysFromCivil_def sampleClock_def MILLISECONDS_IN_DAY_value)

lemma getEmployeeStats_example:
  "getEmployeeStats sampleClock 1 2024
     (sampleStore [sampleRow 1 1 19900 19902 APPROVED, sampleRow 2 1 19910 19910 PENDING,
                   sampleRow 3 1 19920 19921 REJECTED])
   = \<lparr>total = 3, approved = 1, pending = 1, rejected = 1, totalDays = 3\<rparr>"
  by (simp add: getEmployeeStats_def year_bounds_2024 sampleStore_def sampleRow_def
      statsStep_eq Let_def)

text \<open>
  Claim C7. \<open>getEmployeeStats\<close> counts the requests of the employee created within the
  calendar year: \<open>total\<close> is their number, \<open>approved\<close> and \<open>rejected\<close> count those
  statuses, \<open>pending\<close> counts \<open>PENDING\<close> and \<open>PENDING_APPROVAL\<close>, and \<open>totalDays\<close> adds the
  inclusive spans of the approved ones. The aggregation is as claimed on the rows the
  query selects (the two lemmas above), but the query's upper bound is the midnight that
  starts 31 December: an approved request created at 10:00 on 31 December 2024 is within
  the year 2024 and is not counted.
\<close>

theorem getEmployeeStats_year_end:
  "createdInYear sampleClock 2024 yearEndRow
   \<and> employeeId yearEndRow = 1 \<and> status yearEndRow = APPROVED
   \<and> getEmployeeStats sampleClock 1 2024 (sampleStore [yearEndRow])
     = \<lparr>total = 0, approved = 0, pending = 0, rejected = 0, totalDays = 0\<rparr>"
  by (simp add: createdInYear_def getEmployeeStats_def year_bounds_2024 sampleStore_def
      sampleRow_def yearEndRow_def Let_def)

section \<open>Idempotent creation and the overlap invariant\<close>

lemmas sample_defs = sampleStore_def sampleRow_def sampleData_def sampleClock_def

lemmas create_defs = createLeaveRequest_def employeeExists_def startOfToday_def
  MILLISECONDS_IN_DAY_value findOverlapping_def findByIdempotencyKey_def create_def
  publishMessage_def findById_def Let_def isActive_def


text \<open>
  Claim C1, as stated for every idempotency key, fails for the empty key: an empty
  string is falsy, so each call draws a fresh random key, and two calls with the same
  body create the rows 1 and 2, neither flagged as a duplicate.
\<close>

theorem createLeaveRequest_empty_key_not_idempotent:
  "outcome (fst (createLeaveRequest sampleClock ''a1'' (sampleData 1 19900 19901 (Some ''''))
       (sampleStore []))) = Inr (Some 1, False)
   \<and> outcome (fst (createLeaveRequest sampleClock ''b2'' (sampleData 1 19900 19901 (Some ''''))
       (snd (createLeaveRequest sampleClock ''a1'' (sampleData 1 19900 19901 (Some ''''))
          (sampleStore []))))) = Inr (Some 2, False)
   \<and> length (rows (snd (createLeaveRequest sampleClock ''b2''
       (sampleData 1 19900 19901 (Some ''''))
       (snd (createLeaveRequest sampleClock ''a1'' (sampleData 1 19900 19901 (Some ''''))
          (sampleStore [])))))) = 2"
  by (simp add: create_defs sample_defs outcome_def isDuplicate_def)

text \<open>
  The duplicate lookup comes after the overlap check. Once the auto-processor has approved
  the first request, a repeated call with the same key is refused as an overlap with the
  very request it repeats.
\<close>

lemma retry_after_approval:
  "outcome (fst (createLeaveRequest sampleClock ''b2'' (sampleData 1 19900 19901 (Some ''key-1''))
      (handleQueueMessage 2 sampleClock \<lparr>routingKey = LEAVE_REQUESTED, payloadId = Some 1\<rparr>
        (snd (createLeaveRequest sampleClock ''a1'' (sampleData 1 19900 19901 (Some ''key-1''))
           (sampleStore [])))))) = Inl Overlaps"
  by (simp add: create_defs sample_defs outcome_def isDuplicate_def handleQueueMessage_def
      autoProcessLeaveRequest_def calculateLeaveDuration_days updateStatus_def LEAVE_REQUESTED_def
      isActive_def overlapCondition_def)

text \<open>
  Claim C2, as stated for every reachable state, fails: the overlap check of a creation
  looks at active rows only, so two requests of employee 1 that share 27 June 2024 are both
  created as \<open>PENDING\<close>, and the auto-processor, which checks no overlap, approves both.
\<close>

theorem noActiveOverlap_broken_by_processor:
  "\<not> noActiveOverlap
      (run 2
        [Create sampleClock ''a1'' (sampleData 1 19900 19901 (Some ''key-1'')),
         Create sampleClock ''b2'' (sampleData 1 19901 19902 (Some ''key-2'')),
         Consume sampleClock \<lparr>routingKey = LEAVE_REQUESTED, payloadId = Some 1\<rparr>,
         Consume sampleClock \<lparr>routingKey = LEAVE_REQUESTED, payloadId = Some 2\<rparr>]
        (emptyStore {1} True))"
  by (simp add: run_def create_defs sample_defs emptyStore_def handleQueueMessage_def
      autoProcessLeaveRequest_def calculateLeaveDuration_days updateStatus_def LEAVE_REQUESTED_def
      isActive_def overlapCondition_def noActiveOverlap_def inConflict_def rangesOverlap_def)


lemma createLeaveRequest_fresh:
  assumes key: "idempotencyKey d = Some k" "k \<noteq> []"
    and fresh: "findByIdempotencyKey k s = None"
    and first: "createLeaveRequest c rnd d s = (Inr r1, s1)"
  shows "rows s1 = rows s @
           [\<lparr>employeeId = employeeId d, startDate = startDate d, endDate = endDate d,
             idempotencyKey = Some k, id' = nextId s, status = PENDING, processedAt = None,
             createdAt = now c, updatedAt = now c\<rparr>]"
    and "employees s1 = employees s"
    and "r1 = \<lparr>success = True, data = findById (nextId s) s1, duplicate = None\<rparr>"
    and "employeeExists (employeeId d) s"
    and "\<not> dateLess (newDate (DateOnly (endDate d))) (newDate (DateOnly (startDate d)))"
    and "findOverlapping (employeeId d) (startDate d) (endDate d) None s = []"
  using assms
  by (auto simp: createLeaveRequest_def create_def publishMessage_def Let_def
      split: if_splits)

lemma find_snoc:
  "find P (xs @ [y]) = (case find P xs of None \<Rightarrow> (if P y then Some y else None) | Some x \<Rightarrow> Some x)"
  by (induction xs) simp_all

lemma findOverlapping_snoc_pending:
  "status r = PENDING \<Longrightarrow> rows s1 = rows s @ [r] \<Longrightarrow>
   findOverlapping emp a b x s1 = findOverlapping emp a b x s"
  by (simp add: findOverlapping_def isActive_def)

lemma findById_snoc_fresh_id:
  "rows s1 = rows s @ [r] \<Longrightarrow> id' r = i \<Longrightarrow> map_option id' (findById i s1) = Some i"
proof (cases "find (\<lambda>r. id' r = i) (rows s)")
  case None
  assume "rows s1 = rows s @ [r]" "id' r = i"
  with None show ?thesis by (simp add: findById_def find_snoc)
next
  case (Some x)
  assume "rows s1 = rows s @ [r]" "id' r = i"
  moreover from Some have "id' x = i" by (auto simp: find_Some_iff)
  ultimately show ?thesis using Some by (simp add: findById_def find_snoc)
qed

lemma findByIdempotencyKey_snoc:
  "findByIdempotencyKey k s = None \<Longrightarrow> rows s1 = rows s @ [r] \<Longrightarrow> idempotencyKey r = Some k
   \<Longrightarrow> findByIdempotencyKey k s1 = Some r"
  by (simp add: findByIdempotencyKey_def find_snoc)

text \<open>
  Claim C1, amended. For every non-empty idempotency key that no row carries yet: when a
  first \<open>createLeaveRequest\<close> succeeds, it is not flagged as a duplicate and returns the
  new id; a second call with the same body, in the state the first one left and while the
  start date is still not in the past, returns the same id flagged as a duplicate and
  leaves the state as it is (no new row, nothing published).
\<close>

theorem createLeaveRequest_idempotent:
  assumes key: "idempotencyKey d = Some k" "k \<noteq> []"
    and fresh: "findByIdempotencyKey k s = None"
    and first: "createLeaveRequest c rnd d s = (Inr r1, s1)"
    and notpast: "\<not> dateLess (newDate (DateOnly (startDate d))) (Time (startOfToday c'))"
  shows "\<not> isDuplicate r1
    \<and> map_option id' (data r1) = Some (nextId s)
    \<and> (\<exists>r2. createLeaveRequest c' rnd' d s1 = (Inr r2, s1)
           \<and> isDuplicate r2
           \<and> map_option id' (data r2) = map_option id' (data r1))"
proof -
  let ?lr = "\<lparr>employeeId = employeeId d, startDate = startDate d, endDate = endDate d,
             idempotencyKey = Some k, id' = nextId s, status = PENDING, processedAt = None,
             createdAt = now c, updatedAt = now c\<rparr>"
  note shape = createLeaveRequest_fresh [OF key fresh first]
  have rows1: "rows s1 = rows s @ [?lr]" by (rule shape(1))
  have r1: "r1 = \<lparr>success = True, data = findById (nextId s) s1, duplicate = None\<rparr>"
    by (rule shape(3))
  have nodup: "\<not> isDuplicate r1" by (simp add: r1 isDuplicate_def)
  have id1: "map_option id' (data r1) = Some (nextId s)"
    using findById_snoc_fresh_id [OF rows1, of "nextId s"] by (simp add: r1)
  have emp: "employeeExists (employeeId d) s1"
    using shape(4) by (simp add: employeeExists_def shape(2))
  have noov: "findOverlapping (employeeId d) (startDate d) (endDate d) None s1 = []"
    using findOverlapping_snoc_pending [OF _ rows1] shape(6) by simp
  have found: "findByIdempotencyKey k s1 = Some ?lr"
    using findByIdempotencyKey_snoc [OF fresh rows1] by simp
  have second: "createLeaveRequest c' rnd' d s1
      = (Inr \<lparr>success = True, data = Some ?lr, duplicate = Some True\<rparr>, s1)"
    using emp shape(5) notpast noov found key
    by (simp add: createLeaveRequest_def Let_def)
  show ?thesis
    using nodup id1 second by (auto simp: isDuplicate_def)
qed


theorem createLeaveRequest_idempotent_witness:
  "idempotencyKey (sampleData 1 19900 19901 (Some ''key-1'')) = Some ''key-1''
   \<and> ''key-1'' \<noteq> []
   \<and> findByIdempotencyKey ''key-1'' (sampleStore []) = None
   \<and> createLeaveRequest sampleClock ''a1'' (sampleData 1 19900 19901 (Some ''key-1''))
        (sampleStore [])
      = (Inr \<lparr>success = True, data = Some createdRow, duplicate = None\<rparr>, createdStore)
   \<and> \<not> dateLess (newDate (DateOnly (startDate (sampleData 1 19900 19901 (Some ''key-1''))))) 
          (Time (startOfToday sampleClock))
   \<and> \<not> isDuplicate \<lparr>success = True, data = Some createdRow, duplicate = None\<rparr>
   \<and> map_option id' (data \<lparr>success = True, data = Some createdRow, duplicate = None\<rparr>)
      = Some 1
   \<and> outcome (fst (createLeaveRequest sampleClock ''b2''
        (sampleData 1 19900 19901 (Some ''key-1'')) createdStore)) = Inr (Some 1, True)
   \<and> snd (createLeaveRequest sampleClock ''b2''
        (sampleData 1 19900 19901 (Some ''key-1'')) createdStore) = createdStore"
proof -
  let ?d = "sampleData 1 19900 19901 (Some ''key-1'')"
  let ?r1 = "\<lparr>success = True, data = Some createdRow, duplicate = None\<rparr>"
  have key: "idempotencyKey ?d = Some ''key-1''" "''key-1'' \<noteq> []"
    by (simp_all add: sampleData_def)
  have fresh: "findByIdempotencyKey ''key-1'' (sampleStore []) = None"
    by (simp add: findByIdempotencyKey_def sampleStore_def)
  have first: "createLeaveRequest sampleClock ''a1'' ?d (sampleStore []) = (Inr ?r1, createdStore)"
    by (simp add: create_defs sample_defs createdRow_def createdStore_def LEAVE_REQUESTED_def)
  have notpast: "\<not> dateLess (newDate (DateOnly (startDate ?d))) (Time (startOfToday sampleClock))"
    by (simp add: sample_defs startOfToday_def MILLISECONDS_IN_DAY_value)
  have nid: "nextId (sampleStore []) = 1" by (simp add: sampleStore_def)
  note inst = createLeaveRequest_idempotent [OF key fresh first notpast, of "''b2''"]
  from inst nid have a: "\<not> isDuplicate ?r1" "map_option id' (data ?r1) = Some 1"
    by simp_all
  from inst a obtain r2 where r2: "createLeaveRequest sampleClock ''b2'' ?d createdStore
      = (Inr r2, createdStore)" "isDuplicate r2" "map_option id' (data r2) = Some 1"
    by auto
  from r2 have b: "outcome (fst (createLeaveRequest sampleClock ''b2'' ?d createdStore))
      = Inr (Some 1, True)"
    "snd (createLeaveRequest sampleClock ''b2'' ?d createdStore) = createdStore"
    by (simp_all add: outcome_def)
  from key fresh first notpast a b show ?thesis by blast
qed

lemma rangesOverlap_overlapCondition:
  "rangesOverlap s1 e1 s2 e2 \<Longrightarrow> overlapCondition s1 e1 s2 e2"
  unfolding overlapCondition_def rangesOverlap_def by auto

lemma rows_createLeaveRequest:
  "rows (snd (createLeaveRequest c rnd d s)) = rows s
   \<or> (\<exists>r. status r = PENDING \<and> rows (snd (createLeaveRequest c rnd d s)) = rows s @ [r])"
  by (auto simp: createLeaveRequest_def create_def publishMessage_def Let_def
      split: option.splits sum.splits if_splits)

lemma noActiveOverlap_snoc_pending:
  "noActiveOverlap s \<Longrightarrow> rows s' = rows s @ [r] \<Longrightarrow> status r = PENDING \<Longrightarrow> noActiveOverlap s'"
  by (simp add: noActiveOverlap_def sorted_wrt_append inConflict_def isActive_def)

lemma noActiveOverlap_createLeaveRequest:
  assumes "noActiveOverlap s"
  shows "noActiveOverlap (snd (createLeaveRequest c rnd d s))"
proof -
  from rows_createLeaveRequest [of c rnd d s]
  consider (same) "rows (snd (createLeaveRequest c rnd d s)) = rows s"
    | (snoc) r where "status r = PENDING"
        "rows (snd (createLeaveRequest c rnd d s)) = rows s @ [r]"
    by blast
  then show ?thesis
  proof cases
    case same
    then show ?thesis using assms by (simp add: noActiveOverlap_def)
  next
    case snoc
    from assms snoc(2) snoc(1) show ?thesis by (rule noActiveOverlap_snoc_pending)
  qed
qed

lemma rows_cancelLeaveRequest:
  "rows (snd (cancelLeaveRequest i emp s)) = rows s
   \<or> rows (snd (cancelLeaveRequest i emp s)) = filter (\<lambda>r. id' r \<noteq> i) (rows s)"
  by (simp add: cancelLeaveRequest_def delete_def split: option.splits)

lemma noActiveOverlap_cancelLeaveRequest:
  "noActiveOverlap s \<Longrightarrow> noActiveOverlap (snd (cancelLeaveRequest i emp s))"
  using rows_cancelLeaveRequest [of i emp s]
  unfolding noActiveOverlap_def by (elim disjE) (simp_all add: sorted_wrt_filter)

lemma noActiveOverlap_step:
  "noActiveOverlap s \<Longrightarrow> isCreateOrCancel x \<Longrightarrow> noActiveOverlap (step threshold s x)"
  by (cases x)
    (simp_all add: noActiveOverlap_createLeaveRequest noActiveOverlap_cancelLeaveRequest)

lemma noActiveOverlap_run:
  "noActiveOverlap s \<Longrightarrow> list_all isCreateOrCancel ops \<Longrightarrow> noActiveOverlap (run threshold ops s)"
  unfolding run_def
  by (induction ops arbitrary: s) (simp_all add: noActiveOverlap_step)

lemma createLeaveRequest_success_no_overlap:
  "fst (createLeaveRequest c rnd d s) = Inr r \<Longrightarrow>
   findOverlapping (employeeId d) (startDate d) (endDate d) None s = []"
  by (auto simp: createLeaveRequest_def Let_def split: if_splits)

text \<open>
  Claim C2, amended. From a state in which no two active requests of one employee
  overlap, every sequence of \<open>createLeaveRequest\<close> and \<open>cancelLeaveRequest\<close> calls leads to
  such a state again; and a creation succeeds only if its range shares no day with an
  active request of the employee. Status changes (the update operation and the
  auto-processor) check no overlap and are not covered.
\<close>

theorem noActiveOverlap_create_cancel:
  "(noActiveOverlap s \<and> list_all isCreateOrCancel ops \<longrightarrow>
      noActiveOverlap (run threshold ops s))
   \<and> (fst (createLeaveRequest c rnd d s) = Inr r \<longrightarrow>
      (\<forall>q \<in> set (rows s). employeeId q = employeeId d \<and> isActive (status q) \<longrightarrow>
         \<not> rangesOverlap (startDate d) (endDate d) (startDate q) (endDate q)))"
proof (intro conjI impI ballI)
  assume "noActiveOverlap s \<and> list_all isCreateOrCancel ops"
  then show "noActiveOverlap (run threshold ops s)" by (simp add: noActiveOverlap_run)
next
  fix q
  assume ok: "fst (createLeaveRequest c rnd d s) = Inr r" and q: "q \<in> set (rows s)"
    and act: "employeeId q = employeeId d \<and> isActive (status q)"
  have "findOverlapping (employeeId d) (startDate d) (endDate d) None s = []"
    using ok by (rule createLeaveRequest_success_no_overlap)
  then have "\<not> overlapCondition (startDate d) (endDate d) (startDate q) (endDate q)"
    using q act by (auto simp: findOverlapping_def filter_empty_conv)
  then show "\<not> rangesOverlap (startDate d) (endDate d) (startDate q) (endDate q)"
    using rangesOverlap_overlapCondition by blast
qed

theorem noActiveOverlap_create_cancel_witness:
  "noActiveOverlap (sampleStore [sampleRow 1 1 19890 19895 APPROVED])
   \<and> list_all isCreateOrCancel
        [Create sampleClock ''a1'' (sampleData 1 19900 19901 (Some ''key-1'')), Cancel 1 1]
   \<and> noActiveOverlap (run 2
        [Create sampleClock ''a1'' (sampleData 1 19900 19901 (Some ''key-1'')), Cancel 1 1]
        (sampleStore [sampleRow 1 1 19890 19895 APPROVED]))
   \<and> outcome (fst (createLeaveRequest sampleClock ''a1''
        (sampleData 1 19900 19901 (Some ''key-1''))
        (sampleStore [sampleRow 1 1 19890 19895 APPROVED]))) = Inr (Some 2, False)
   \<and> sampleRow 1 1 19890 19895 APPROVED
        \<in> set (rows (sampleStore [sampleRow 1 1 19890 19895 APPROVED]))
   \<and> employeeId (sampleRow 1 1 19890 19895 APPROVED)
        = employeeId (sampleData 1 19900 19901 (Some ''key-1''))
   \<and> isActive (status (sampleRow 1 1 19890 19895 APPROVED))
   \<and> \<not> rangesOverlap (startDate (sampleData 1 19900 19901 (Some ''key-1'')))
         (endDate (sampleData 1 19900 19901 (Some ''key-1'')))
         (startDate (sampleRow 1 1 19890 19895 APPROVED))
         (endDate (sampleRow 1 1 19890 19895 APPROVED))"
proof -
  let ?s = "sampleStore [sampleRow 1 1 19890 19895 APPROVED]"
  let ?d = "sampleData 1 19900 19901 (Some ''key-1'')"
  let ?ops = "[Create sampleClock ''a1'' ?d, Cancel 1 1]"
  have inv: "noActiveOverlap ?s" by (simp add: noActiveOverlap_def sampleStore_def)
  have ops: "list_all isCreateOrCancel ?ops" by simp
  have out: "outcome (fst (createLeaveRequest sampleClock ''a1'' ?d ?s)) = Inr (Some 2, False)"
    by (simp add: create_defs sample_defs outcome_def isDuplicate_def overlapCondition_def)
  then obtain r where ok: "fst (createLeaveRequest sampleClock ''a1'' ?d ?s) = Inr r"
    by (cases "fst (createLeaveRequest sampleClock ''a1'' ?d ?s)") (simp_all add: outcome_def)
  have mem: "sampleRow 1 1 19890 19895 APPROVED \<in> set (rows ?s)"
    by (simp add: sampleStore_def)
  have same: "employeeId (sampleRow 1 1 19890 19895 APPROVED) = employeeId ?d"
    by (simp add: sample_defs)
  have act: "isActive (status (sampleRow 1 1 19890 19895 APPROVED))"
    by (simp add: sample_defs isActive_def)
  note inst = noActiveOverlap_create_cancel [of ?s ?ops 2 sampleClock "''a1''" ?d r]
  from inst inv ops have a: "noActiveOverlap (run 2 ?ops ?s)" by blast
  from inst ok mem same act
  have b: "\<not> rangesOverlap (startDate ?d) (endDate ?d)
         (startDate (sampleRow 1 1 19890 19895 APPROVED))
         (endDate (sampleRow 1 1 19890 19895 APPROVED))"
    by blast
  from inv ops a out mem same act b show ?thesis by blast
qed

end
